theory Spec2Isabelle
  imports Complex_Main "HOL-Library.Sublist"
begin

section \<open>The TensorFlow batch-execution interface\<close>

text \<open>
  A shallow embedding of \<^verbatim>\<open>pennylane/interfaces/batch/tensorflow.py\<close>: the
  forward pass \<^verbatim>\<open>execute\<close> / \<^verbatim>\<open>_execute\<close> and the gradient closure
  \<^verbatim>\<open>grad_fn\<close> that \<^verbatim>\<open>_execute\<close> returns.

  Tapes are mutable Python objects; the model passes their state explicitly. Every call
  that leaves the module (the execution function, the device gradient method, the
  gradient transform, the recursive call of \<^verbatim>\<open>execute\<close>) is recorded in a log of
  events, and every exception is a value \<open>Inl e\<close>. The callables handed to the executor
  are functions of their arguments: they read the tapes they are given and do not
  mutate them.
\<close>

subsection \<open>Numeric values\<close>

text \<open>
  A numeric value is held either by NumPy (what a device returns, what an unwrapped
  parameter is) or by TensorFlow. \<^verbatim>\<open>tf.convert_to_tensor\<close> moves the same numbers
  into a TensorFlow tensor.
\<close>

datatype 'a host = Numpy 'a | Tensor 'a

fun payload :: "'a host \<Rightarrow> 'a" where
  "payload (Numpy x) = x"
| "payload (Tensor x) = x"

fun is_tensor :: "'a host \<Rightarrow> bool" where
  "is_tensor (Numpy x) = False"
| "is_tensor (Tensor x) = True"

definition convert_to_tensor :: "'a host \<Rightarrow> 'a host" where
  "convert_to_tensor x = Tensor (payload x)"

type_synonym scalar = "real host"

text \<open>The result of one tape, and the upstream gradient \<^verbatim>\<open>dy[i]\<close> of one tape.\<close>

type_synonym array = "real list host"

text \<open>
  The Jacobian of one tape, as the list of its rows: one row per entry of the tape's
  result, one column per trainable parameter of the tape.
\<close>

type_synonym jacobian = "real list list host"

text \<open>
  Modelled from the spec: \<^verbatim>\<open>qml.gradients.compute_vjp\<close> is not among the sources.
  The spec calls the vector-Jacobian product "the contraction of an upstream gradient
  vector with a Jacobian matrix": entry \<open>j\<close> is the sum over the rows \<open>i\<close> of
  \<open>dy[i] * jac[i][j]\<close>, one entry per column of the Jacobian.
\<close>

definition compute_vjp :: "array \<Rightarrow> jacobian \<Rightarrow> scalar list" where
  "compute_vjp dy jac =
     map (\<lambda>col. Tensor (sum_list (map2 (\<lambda>d x. d * x) (payload dy) col)))
       (transpose (payload jac))"

subsection \<open>Tapes\<close>

text \<open>
  Modelled from the spec: the tape class, \<^verbatim>\<open>qml.math.get_trainable_indices\<close> and
  \<^verbatim>\<open>qml.tape.Unwrap\<close> are not among the sources. The spec gives a tape an ordered
  parameter list, a mutable set of trainable parameter positions and a scoped "unwrap to
  concrete values". A parameter is symbolic (a TensorFlow value, with an optional
  trainability annotation) or a concrete number.
\<close>

datatype param = Symbolic real "bool option" | Concrete real

record tape =
  params :: "param list"
  trainable_params :: "nat set"

text \<open>
  Modelled from the spec: whether a parameter is trainable. The spec derives
  trainability from the parameter list, "defaulting to all parameters when no
  finer-grained trainability annotation exists".
\<close>

fun requires_grad :: "param \<Rightarrow> bool" where
  "requires_grad (Symbolic v a) = (a \<noteq> Some False)"
| "requires_grad (Concrete v) = True"

text \<open>
  Modelled from the spec: \<^verbatim>\<open>qml.math.get_trainable_indices(params)\<close>, the positions
  of the trainable parameters in the list.
\<close>

definition get_trainable_indices :: "param list \<Rightarrow> nat set" where
  "get_trainable_indices ps = set (filter (\<lambda>i. requires_grad (ps ! i)) [0..<length ps])"

text \<open>
  Modelled from the spec: \<^verbatim>\<open>tape.get_parameters()\<close>, the parameters at the
  trainable positions, in the order they have in the tape
  (\<^verbatim>\<open>tape.get_parameters(trainable_only=False)\<close> is \<open>params\<close>).
\<close>

definition get_parameters :: "tape \<Rightarrow> param list" where
  "get_parameters t = nths (params t) (trainable_params t)"

text \<open>
  Modelled from the spec: unwrapping binds a parameter to its concrete numeric value.
\<close>

fun unwrap :: "param \<Rightarrow> param" where
  "unwrap (Symbolic v a) = Concrete v"
| "unwrap (Concrete v) = Concrete v"

definition unwrap_tape :: "tape \<Rightarrow> tape" where
  "unwrap_tape t = t\<lparr>params := map unwrap (params t)\<rparr>"

text \<open>
  Modelled from the spec: \<^verbatim>\<open>with qml.tape.Unwrap(*tapes): body\<close>. The body runs on
  the tapes with their parameters bound to concrete values; on leaving the block, by a
  normal return or by an exception (the body's result is then \<open>Inl e\<close>), every tape gets
  its original parameters back.
\<close>

definition restore_params :: "tape list \<Rightarrow> param list list \<Rightarrow> tape list" where
  "restore_params ts original_params = map2 (\<lambda>t ps. t\<lparr>params := ps\<rparr>) ts original_params"

definition Unwrap :: "tape list \<Rightarrow> (tape list \<Rightarrow> 'a \<times> tape list) \<Rightarrow> 'a \<times> tape list" where
  "Unwrap tapes body =
     (let original_params = map params tapes;
          (r, ts) = body (map unwrap_tape tapes)
      in (r, restore_params ts original_params))"

subsection \<open>The callables handed to the executor\<close>

datatype error = ValueError string | Raised string

type_synonym kwargs = "(string \<times> real) list"

type_synonym device = nat

text \<open>
  \<^verbatim>\<open>execute_fn(tapes, **kwargs)\<close> returns \<^verbatim>\<open>(results, jacobians)\<close> or raises.
\<close>

type_synonym execute_fn = "tape list \<Rightarrow> kwargs \<Rightarrow> error + (array list \<times> jacobian list)"

text \<open>
  What \<^verbatim>\<open>grad_fn\<close> asks of \<^verbatim>\<open>gradient_fn\<close>: the name of the module it comes
  from (\<^verbatim>\<open>getattr(inspect.getmodule(gradient_fn), "__name__", "")\<close>), its attribute
  \<^verbatim>\<open>fn\<close> (absent, a method bound to some device, or anything else), and what calling
  it returns.
\<close>

datatype fn_attr = Method device | NotAMethod

record gradient_fn =
  gf_module_name :: string
  gf_fn :: "fn_attr option"
  gf_call :: "tape list \<Rightarrow> kwargs \<Rightarrow> error + jacobian list"

type_synonym processing_fn = "array list \<Rightarrow> error + scalar list"

text \<open>
  The library functions \<^verbatim>\<open>grad_fn\<close> calls that are not among the sources are
  parameters of the model: \<^verbatim>\<open>qml.gradients.batch_vjp(tapes, dy, gradient_fn,
  reduction, gradient_kwargs)\<close> and the tape method \<^verbatim>\<open>_update\<close>.
\<close>

record env =
  batch_vjp :: "tape list \<Rightarrow> array list \<Rightarrow> gradient_fn \<Rightarrow> string \<Rightarrow> kwargs
                  \<Rightarrow> error + (tape list \<times> processing_fn)"
  tape_update :: "tape \<Rightarrow> tape"

datatype event =
    ExecuteFn "tape list" kwargs
  | GradientFn "tape list" kwargs
  | BatchVjp "tape list" "array list" gradient_fn string kwargs
  | Execute "tape list" device execute_fn gradient_fn kwargs int int

fun is_Execute :: "event \<Rightarrow> bool" where
  "is_Execute (Execute ts d ef gf kw n m) = True"
| "is_Execute e = False"

subsection \<open>The forward pass\<close>

text \<open>
  The variables \<^verbatim>\<open>grad_fn\<close> closes over. \<open>cl_jacs\<close> is the \<^verbatim>\<open>nonlocal jacs\<close>;
  \<open>cl_tapes\<close> is the state of the tape objects when the closure runs.
\<close>

record closure =
  cl_tapes :: "tape list"
  cl_device :: device
  cl_execute_fn :: execute_fn
  cl_gradient_fn :: gradient_fn
  cl_gradient_kwargs :: kwargs
  cl_n :: int
  cl_max_diff :: int
  cl_jacs :: "jacobian list"

text \<open>
  What \<^verbatim>\<open>@tf.custom_gradient\<close> makes of \<^verbatim>\<open>_execute\<close>: a node of the
  differentiation graph with the positional arguments as its differentiable inputs, the
  first component of the return value as its outputs (what the caller receives), and the
  second as its backward rule.
\<close>

record node =
  inputs :: "param list"
  outputs :: "array list"
  grad :: closure

text \<open>
  \<^verbatim>\<open>_execute\<close> (here \<open>execute'\<close>). It returns the node, the tapes as the
  \<^verbatim>\<open>with\<close> block left them, and the log of its calls.
\<close>

definition execute' ::
  "param list \<Rightarrow> tape list \<Rightarrow> device \<Rightarrow> execute_fn \<Rightarrow> gradient_fn \<Rightarrow> kwargs \<Rightarrow> int \<Rightarrow> int
     \<Rightarrow> (error + node) \<times> tape list \<times> event list" where
  "execute' parameters tapes device execute_fn gradient_fn gradient_kwargs n max_diff =
     (case Unwrap tapes
             (\<lambda>ts. ((execute_fn ts gradient_kwargs, [ExecuteFn ts gradient_kwargs]), ts)) of
        ((Inl e, evs), tapes') \<Rightarrow> (Inl e, tapes', evs)
      | ((Inr (res, jacs), evs), tapes') \<Rightarrow>
          (Inr \<lparr>inputs = parameters,
                outputs = map convert_to_tensor res,
                grad = \<lparr>cl_tapes = tapes', cl_device = device, cl_execute_fn = execute_fn,
                         cl_gradient_fn = gradient_fn, cl_gradient_kwargs = gradient_kwargs,
                         cl_n = n, cl_max_diff = max_diff,
                         cl_jacs = map convert_to_tensor jacs\<rparr>\<rparr>,
           tapes', evs))"

text \<open>
  The body of the first loop of \<^verbatim>\<open>execute\<close>:
  \<^verbatim>\<open>tape.trainable_params = qml.math.get_trainable_indices(params)\<close>.
\<close>

definition set_trainable_params :: "tape \<Rightarrow> tape" where
  "set_trainable_params t = t\<lparr>trainable_params := get_trainable_indices (params t)\<rparr>"

definition execute ::
  "tape list \<Rightarrow> device \<Rightarrow> execute_fn \<Rightarrow> gradient_fn \<Rightarrow> kwargs \<Rightarrow> int \<Rightarrow> int
     \<Rightarrow> (error + node) \<times> tape list \<times> event list" where
  "execute tapes device execute_fn gradient_fn gradient_kwargs n max_diff =
     (let tapes1 = map set_trainable_params tapes;
          parameters = concat (map get_parameters tapes1)
      in execute' parameters tapes1 device execute_fn gradient_fn gradient_kwargs n max_diff)"

subsection \<open>The gradient closure\<close>

type_synonym variables = "string list"

type_synonym tfkwargs = "string \<rightharpoonup> variables"

datatype grad_out = Vjps "scalar list" | VjpsAndVariables "scalar list" variables

text \<open>
  The last two lines of \<^verbatim>\<open>grad_fn\<close>:
  \<^verbatim>\<open>return (vjps, variables) if variables is not None else vjps\<close>.
\<close>

definition return_vjps :: "tfkwargs \<Rightarrow> scalar list \<Rightarrow> grad_out" where
  "return_vjps tfkwargs vjps =
     (case tfkwargs ''variables'' of
        None \<Rightarrow> Vjps vjps
      | Some variables \<Rightarrow> VjpsAndVariables vjps variables)"

text \<open>
  \<^verbatim>\<open>for d, jac in zip(dy, jacs): vjps.extend(qml.gradients.compute_vjp(d, jac))\<close>
\<close>

definition extend_vjps :: "array list \<Rightarrow> jacobian list \<Rightarrow> scalar list" where
  "extend_vjps dy jacs = concat (map2 compute_vjp dy jacs)"

text \<open>
  \<^verbatim>\<open>hasattr(gradient_fn, "fn") and inspect.ismethod(gradient_fn.fn)
  and gradient_fn.fn.__self__ is device\<close>
\<close>

definition is_device_method :: "gradient_fn \<Rightarrow> device \<Rightarrow> bool" where
  "is_device_method gradient_fn device =
     (case gf_fn gradient_fn of
        None \<Rightarrow> False
      | Some NotAMethod \<Rightarrow> False
      | Some (Method self) \<Rightarrow> self = device)"

text \<open>The branch \<^verbatim>\<open>_n == max_diff\<close> of a gradient transform.\<close>

definition vjp_depth_exhausted ::
  "env \<Rightarrow> closure \<Rightarrow> array list \<Rightarrow> (error + scalar list) \<times> closure \<times> event list" where
  "vjp_depth_exhausted env cl dy =
     (let gradient_fn = cl_gradient_fn cl; gradient_kwargs = cl_gradient_kwargs cl in
      case Unwrap (cl_tapes cl)
             (\<lambda>ts. let ts' = map (tape_update env) ts in
                ((batch_vjp env ts' dy gradient_fn ''extend'' gradient_kwargs,
                  [BatchVjp ts' dy gradient_fn ''extend'' gradient_kwargs]), ts')) of
        ((Inl e, evs), tapes') \<Rightarrow> (Inl e, cl\<lparr>cl_tapes := tapes'\<rparr>, evs)
      | ((Inr (vjp_tapes, processing_fn), evs), tapes') \<Rightarrow>
          (let evs' = evs @ [ExecuteFn vjp_tapes []] in
           case cl_execute_fn cl vjp_tapes [] of
             Inl e \<Rightarrow> (Inl e, cl\<lparr>cl_tapes := tapes'\<rparr>, evs')
           | Inr (res, js) \<Rightarrow>
               (case processing_fn res of
                  Inl e \<Rightarrow> (Inl e, cl\<lparr>cl_tapes := tapes'\<rparr>, evs')
                | Inr vjps \<Rightarrow>
                    (Inr (map convert_to_tensor vjps), cl\<lparr>cl_tapes := tapes'\<rparr>, evs'))))"

text \<open>The other branch of a gradient transform: the recursive call of \<^verbatim>\<open>execute\<close>.\<close>

definition vjp_recursive ::
  "env \<Rightarrow> closure \<Rightarrow> array list \<Rightarrow> (error + scalar list) \<times> closure \<times> event list" where
  "vjp_recursive env cl dy =
     (let tapes = cl_tapes cl; device = cl_device cl; execute_fn = cl_execute_fn cl;
          gradient_fn = cl_gradient_fn cl; gradient_kwargs = cl_gradient_kwargs cl;
          n = cl_n cl; max_diff = cl_max_diff cl;
          evs = [BatchVjp tapes dy gradient_fn ''extend'' gradient_kwargs] in
      case batch_vjp env tapes dy gradient_fn ''extend'' gradient_kwargs of
        Inl e \<Rightarrow> (Inl e, cl, evs)
      | Inr (vjp_tapes, processing_fn) \<Rightarrow>
          (case execute vjp_tapes device execute_fn gradient_fn gradient_kwargs
                  (n + 1) max_diff of
             (r, vjp_tapes', inner) \<Rightarrow>
               (let evs' = evs @ Execute vjp_tapes device execute_fn gradient_fn
                                   gradient_kwargs (n + 1) max_diff # inner in
                case r of
                  Inl e \<Rightarrow> (Inl e, cl, evs')
                | Inr nd \<Rightarrow> (processing_fn (outputs nd), cl, evs'))))"

text \<open>The branch of a device method: its Jacobians are stored in \<^verbatim>\<open>jacs\<close>.\<close>

definition vjp_device ::
  "closure \<Rightarrow> array list \<Rightarrow> (error + scalar list) \<times> closure \<times> event list" where
  "vjp_device cl dy =
     (let gradient_fn = cl_gradient_fn cl; gradient_kwargs = cl_gradient_kwargs cl in
      case Unwrap (cl_tapes cl)
             (\<lambda>ts. ((gf_call gradient_fn ts gradient_kwargs,
                     [GradientFn ts gradient_kwargs]), ts)) of
        ((Inl e, evs), tapes') \<Rightarrow> (Inl e, cl\<lparr>cl_tapes := tapes'\<rparr>, evs)
      | ((Inr jacs, evs), tapes') \<Rightarrow>
          (Inr (extend_vjps dy jacs), cl\<lparr>cl_tapes := tapes', cl_jacs := jacs\<rparr>, evs))"

text \<open>
  The body of \<^verbatim>\<open>grad_fn\<close> up to its last two lines: the choice of the branch. Each
  result is the VJP vector or the exception, the closure's variables and tapes after the
  call, and the log of the calls made.
\<close>

definition compute_vjps ::
  "env \<Rightarrow> closure \<Rightarrow> array list \<Rightarrow> (error + scalar list) \<times> closure \<times> event list" where
  "compute_vjps env cl dy =
     (if cl_jacs cl \<noteq> [] then
        (Inr (extend_vjps dy (cl_jacs cl)), cl, [])
      else
        let module_name = gf_module_name (cl_gradient_fn cl) in
        if sublist ''pennylane.gradients'' module_name then
          if cl_n cl = cl_max_diff cl then vjp_depth_exhausted env cl dy
          else vjp_recursive env cl dy
        else if is_device_method (cl_gradient_fn cl) (cl_device cl) then
          vjp_device cl dy
        else
          (Inl (ValueError ''Unknown gradient function.''), cl, []))"

definition grad_fn ::
  "env \<Rightarrow> closure \<Rightarrow> array list \<Rightarrow> tfkwargs
     \<Rightarrow> (error + grad_out) \<times> closure \<times> event list" where
  "grad_fn env cl dy tfkwargs =
     (case compute_vjps env cl dy of
        (Inl e, cl', evs) \<Rightarrow> (Inl e, cl', evs)
      | (Inr vjps, cl', evs) \<Rightarrow> (Inr (return_vjps tfkwargs vjps), cl', evs))"

text \<open>A sequence of calls of one closure, each on the state the previous one left.\<close>

fun invoke_all ::
  "env \<Rightarrow> closure \<Rightarrow> (array list \<times> tfkwargs) list
     \<Rightarrow> ((error + grad_out) \<times> event list) list" where
  "invoke_all env cl [] = []"
| "invoke_all env cl ((dy, tfkwargs) # calls) =
     (case grad_fn env cl dy tfkwargs of
        (r, cl', evs) \<Rightarrow> (r, evs) # invoke_all env cl' calls)"

subsection \<open>Example inputs\<close>

text \<open>
  Concrete inputs on which the theorems below are run: a tape with two trainable
  parameters and a tape whose only parameter is marked as not trainable; backends that
  return Jacobians with the results (forward mode), return none (backward mode), return
  one result whatever the batch, report the number of keyword arguments they were given,
  or raise; a gradient transform, device gradient methods, and a callable that is neither.
\<close>

definition example_tape :: tape where
  "example_tape =
     \<lparr>params = [Symbolic (1/2) None, Symbolic (1/10) (Some True)], trainable_params = {}\<rparr>"

definition frozen_tape :: tape where
  "frozen_tape = \<lparr>params = [Symbolic (1/2) (Some False)], trainable_params = {0}\<rparr>"

definition forward_backend :: execute_fn where
  "forward_backend ts kw = Inr (map (\<lambda>t. Numpy [1]) ts, map (\<lambda>t. Numpy [[2, 3]]) ts)"

definition backward_backend :: execute_fn where
  "backward_backend ts kw = Inr (map (\<lambda>t. Numpy [1]) ts, [])"


definition failing_backend :: execute_fn where
  "failing_backend ts kw = Inl (Raised ''device error'')"

definition one_result_backend :: execute_fn where
  "one_result_backend ts kw = Inr ([Numpy [1]], [])"

definition counting_backend :: execute_fn where
  "counting_backend ts kw = Inr (map (\<lambda>t. Numpy [real (length kw)]) ts, [])"

definition param_shift :: gradient_fn where
  "param_shift =
     \<lparr>gf_module_name = ''pennylane.gradients.parameter_shift'', gf_fn = None,
      gf_call = (\<lambda>ts kw. Inl (Raised ''a transform returns tapes, not Jacobians''))\<rparr>"

definition device_gradients :: "device \<Rightarrow> gradient_fn" where
  "device_gradients d =
     \<lparr>gf_module_name = ''pennylane._device'', gf_fn = Some (Method d),
      gf_call = (\<lambda>ts kw. Inr (map (\<lambda>t. Numpy [[2, 3]]) ts))\<rparr>"

definition empty_device_gradients :: "device \<Rightarrow> gradient_fn" where
  "empty_device_gradients d =
     \<lparr>gf_module_name = ''pennylane._device'', gf_fn = Some (Method d),
      gf_call = (\<lambda>ts kw. Inr [])\<rparr>"

definition unknown_gradient_fn :: gradient_fn where
  "unknown_gradient_fn =
     \<lparr>gf_module_name = ''numpy'', gf_fn = None,
      gf_call = (\<lambda>ts kw. Inr [])\<rparr>"

definition sum_results :: processing_fn where
  "sum_results res = Inr (map (\<lambda>r. Numpy (sum_list (payload r))) res)"

definition example_env :: env where
  "example_env =
     \<lparr>batch_vjp = (\<lambda>ts dy gf reduction kw. Inr (ts @ ts, sum_results)),
      tape_update = (\<lambda>t. t)\<rparr>"


definition example_closure :: "execute_fn \<Rightarrow> gradient_fn \<Rightarrow> int \<Rightarrow> int \<Rightarrow> closure" where
  "example_closure execute_fn gradient_fn n max_diff =
     \<lparr>cl_tapes = [set_trainable_params example_tape], cl_device = 7,
      cl_execute_fn = execute_fn, cl_gradient_fn = gradient_fn,
      cl_gradient_kwargs = [(''h'', 1/100)], cl_n = n, cl_max_diff = max_diff,
      cl_jacs = []\<rparr>"


section \<open>Properties\<close>

subsection \<open>The unwrap scope and the forward pass\<close>

lemma map_params_restore:
  "length ts = length ps \<Longrightarrow> map params (restore_params ts ps) = ps"
  unfolding restore_params_def by (induction ts ps rule: list_induct2) auto

lemma restore_unwrap_tapes:
  "restore_params (map unwrap_tape tapes) (map params tapes) = tapes"
  unfolding restore_params_def by (induction tapes) (auto simp: unwrap_tape_def)

lemma Unwrap_read_only:
  "Unwrap tapes (\<lambda>ts. (f ts, ts)) = (f (map unwrap_tape tapes), tapes)"
  by (simp add: Unwrap_def restore_unwrap_tapes)

lemma execute'_eq:
  "execute' parameters tapes device execute_fn gradient_fn gradient_kwargs n max_diff =
     (case execute_fn (map unwrap_tape tapes) gradient_kwargs of
        Inl e \<Rightarrow> (Inl e, tapes, [ExecuteFn (map unwrap_tape tapes) gradient_kwargs])
      | Inr (res, jacs) \<Rightarrow>
          (Inr \<lparr>inputs = parameters, outputs = map convert_to_tensor res,
                grad = \<lparr>cl_tapes = tapes, cl_device = device, cl_execute_fn = execute_fn,
                         cl_gradient_fn = gradient_fn, cl_gradient_kwargs = gradient_kwargs,
                         cl_n = n, cl_max_diff = max_diff,
                         cl_jacs = map convert_to_tensor jacs\<rparr>\<rparr>,
           tapes, [ExecuteFn (map unwrap_tape tapes) gradient_kwargs]))"
  by (simp add: execute'_def Unwrap_read_only split: sum.splits prod.splits)

lemma execute'_events:
  "snd (snd (execute' parameters tapes device execute_fn gradient_fn gradient_kwargs n max_diff))
     = [ExecuteFn (map unwrap_tape tapes) gradient_kwargs]"
  by (simp add: execute'_eq split: sum.splits prod.splits)

lemma execute'_tapes:
  "fst (snd (execute' parameters tapes device execute_fn gradient_fn gradient_kwargs n max_diff))
     = tapes"
  by (simp add: execute'_eq split: sum.splits prod.splits)

lemma trainable_indices_set:
  "get_trainable_indices ps = {i. i < length ps \<and> requires_grad (ps ! i)}"
  by (auto simp: get_trainable_indices_def)

lemma nths_trainable:
  "nths ps (get_trainable_indices ps) = filter requires_grad ps"
  by (simp add: trainable_indices_set filter_eq_nths)

lemma card_trainable:
  "card (get_trainable_indices ps) = length (filter requires_grad ps)"
proof -
  have "length (filter requires_grad ps) = length (nths ps (get_trainable_indices ps))"
    by (simp add: nths_trainable)
  also have "\<dots> = card {i. i < length ps \<and> i \<in> get_trainable_indices ps}"
    by (rule length_nths)
  also have "{i. i < length ps \<and> i \<in> get_trainable_indices ps} = get_trainable_indices ps"
    by (auto simp: trainable_indices_set)
  finally show ?thesis by simp
qed

lemma get_parameters_set_trainable:
  "get_parameters (set_trainable_params t) = filter requires_grad (params t)"
  by (simp add: get_parameters_def set_trainable_params_def nths_trainable)

lemma params_set_trainable: "params (set_trainable_params t) = params t"
  by (simp add: set_trainable_params_def)

lemma execute_eq:
  "execute tapes device execute_fn gradient_fn gradient_kwargs n max_diff =
     execute' (concat (map (\<lambda>t. filter requires_grad (params t)) tapes))
       (map set_trainable_params tapes) device execute_fn gradient_fn gradient_kwargs n max_diff"
  by (simp add: execute_def get_parameters_set_trainable comp_def)

lemma execute_events:
  "snd (snd (execute tapes device execute_fn gradient_fn gradient_kwargs n max_diff))
     = [ExecuteFn (map unwrap_tape (map set_trainable_params tapes)) gradient_kwargs]"
  by (simp add: execute_eq execute'_events)

subsection \<open>The branches of the gradient closure\<close>

lemma grad_fn_direct:
  assumes "cl_jacs cl \<noteq> []"
  shows "grad_fn env cl dy tfkwargs =
           (Inr (return_vjps tfkwargs (concat (map2 compute_vjp dy (cl_jacs cl)))), cl, [])"
  using assms by (simp add: grad_fn_def compute_vjps_def extend_vjps_def)

lemma grad_fn_exhausted:
  assumes "cl_jacs cl = []"
    and "sublist ''pennylane.gradients'' (gf_module_name (cl_gradient_fn cl))"
    and "cl_n cl = cl_max_diff cl"
    and "batch_vjp env (map (tape_update env) (map unwrap_tape (cl_tapes cl))) dy
           (cl_gradient_fn cl) ''extend'' (cl_gradient_kwargs cl)
           = Inr (vjp_tapes, processing_fn)"
  shows "grad_fn env cl dy tfkwargs =
           ((case cl_execute_fn cl vjp_tapes [] of
               Inl e \<Rightarrow> Inl e
             | Inr (res, js) \<Rightarrow>
                 map_sum id (\<lambda>vjps. return_vjps tfkwargs (map convert_to_tensor vjps))
                   (processing_fn res)),
            cl\<lparr>cl_tapes := restore_params
                              (map (tape_update env) (map unwrap_tape (cl_tapes cl)))
                              (map params (cl_tapes cl))\<rparr>,
            [BatchVjp (map (tape_update env) (map unwrap_tape (cl_tapes cl))) dy
               (cl_gradient_fn cl) ''extend'' (cl_gradient_kwargs cl),
             ExecuteFn vjp_tapes []])"
  using assms
  by (auto simp: grad_fn_def compute_vjps_def vjp_depth_exhausted_def Unwrap_def Let_def
           split: sum.splits prod.splits)

lemma grad_fn_recursive:
  assumes "cl_jacs cl = []"
    and "sublist ''pennylane.gradients'' (gf_module_name (cl_gradient_fn cl))"
    and "cl_n cl \<noteq> cl_max_diff cl"
    and "batch_vjp env (cl_tapes cl) dy (cl_gradient_fn cl) ''extend''
           (cl_gradient_kwargs cl) = Inr (vjp_tapes, processing_fn)"
    and "execute vjp_tapes (cl_device cl) (cl_execute_fn cl) (cl_gradient_fn cl)
           (cl_gradient_kwargs cl) (cl_n cl + 1) (cl_max_diff cl) = (r, ts, inner)"
  shows "grad_fn env cl dy tfkwargs =
           ((case r of
               Inl e \<Rightarrow> Inl e
             | Inr nd \<Rightarrow> map_sum id (return_vjps tfkwargs) (processing_fn (outputs nd))),
            cl,
            [BatchVjp (cl_tapes cl) dy (cl_gradient_fn cl) ''extend'' (cl_gradient_kwargs cl),
             Execute vjp_tapes (cl_device cl) (cl_execute_fn cl) (cl_gradient_fn cl)
               (cl_gradient_kwargs cl) (cl_n cl + 1) (cl_max_diff cl)] @ inner)"
  using assms
  by (cases r; cases "processing_fn (outputs (projr r))")
     (simp_all add: grad_fn_def compute_vjps_def vjp_recursive_def Let_def)

lemma grad_fn_device:
  assumes "cl_jacs cl = []"
    and "\<not> sublist ''pennylane.gradients'' (gf_module_name (cl_gradient_fn cl))"
    and "is_device_method (cl_gradient_fn cl) (cl_device cl)"
    and "gf_call (cl_gradient_fn cl) (map unwrap_tape (cl_tapes cl)) (cl_gradient_kwargs cl)
           = Inr jacs"
  shows "grad_fn env cl dy tfkwargs =
           (Inr (return_vjps tfkwargs (concat (map2 compute_vjp dy jacs))),
            cl\<lparr>cl_jacs := jacs\<rparr>,
            [GradientFn (map unwrap_tape (cl_tapes cl)) (cl_gradient_kwargs cl)])"
  using assms
  by (simp add: grad_fn_def compute_vjps_def vjp_device_def Unwrap_read_only extend_vjps_def
        Let_def)

lemma grad_fn_unknown:
  assumes "cl_jacs cl = []"
    and "\<not> sublist ''pennylane.gradients'' (gf_module_name (cl_gradient_fn cl))"
    and "\<not> is_device_method (cl_gradient_fn cl) (cl_device cl)"
  shows "grad_fn env cl dy tfkwargs =
           (Inl (ValueError ''Unknown gradient function.''), cl, [])"
  using assms by (simp add: grad_fn_def compute_vjps_def)

lemma invoke_all_direct:
  assumes "cl_jacs cl \<noteq> []"
  shows "invoke_all env cl calls =
           map (\<lambda>(dy, tfkwargs).
                  (Inr (return_vjps tfkwargs (concat (map2 compute_vjp dy (cl_jacs cl)))), []))
             calls"
  using assms by (induction calls) (auto simp: grad_fn_direct)

lemma compute_vjps_params:
  "map params (cl_tapes (fst (snd (compute_vjps env cl dy)))) = map params (cl_tapes cl)"
proof -
  have exhausted:
    "map params (cl_tapes (fst (snd (vjp_depth_exhausted env cl dy)))) = map params (cl_tapes cl)"
    by (auto simp: vjp_depth_exhausted_def Unwrap_def Let_def map_params_restore
             split: sum.splits prod.splits)
  have recursive: "fst (snd (vjp_recursive env cl dy)) = cl"
    by (auto simp: vjp_recursive_def Let_def split: sum.splits prod.splits)
  have device:
    "map params (cl_tapes (fst (snd (vjp_device cl dy)))) = map params (cl_tapes cl)"
    by (auto simp: vjp_device_def Unwrap_read_only Let_def split: sum.splits prod.splits)
  show ?thesis
    by (simp add: compute_vjps_def Let_def exhausted recursive device)
qed



subsection \<open>Claims\<close>

text \<open>
  C1. When the execution function of the forward pass returned a non-empty list of
  Jacobians, the closure that \<^verbatim>\<open>_execute\<close> returns computes the VJP by contracting
  each \<^verbatim>\<open>dy[i]\<close> with \<^verbatim>\<open>jacobians[i]\<close> and concatenating the per-tape products
  in tape order. The tapes and the stored Jacobians are left as they were and the log
  is empty: no recursive call of the executor, no gradient transform and no device
  gradient method is invoked.
\<close>

theorem C1_direct_contraction:
  assumes "execute_fn (map unwrap_tape tapes) gradient_kwargs = Inr (res, jacs)"
    and "jacs \<noteq> []"
  shows "\<exists>nd tapes' evs.
           execute' parameters tapes device execute_fn gradient_fn gradient_kwargs n max_diff
             = (Inr nd, tapes', evs) \<and>
           grad_fn env (grad nd) dy tfkwargs
             = (Inr (return_vjps tfkwargs
                       (concat (map2 compute_vjp dy (map convert_to_tensor jacs)))),
                grad nd, [])"
  using assms by (simp add: execute'_eq grad_fn_direct)

theorem C1_direct_contraction_witness:
  "forward_backend (map unwrap_tape [set_trainable_params example_tape]) [] = Inr ([Numpy [1]], [Numpy [[2, 3]]])
   \<and> [Numpy [[2, 3]]] \<noteq> ([] :: jacobian list)
   \<and> (\<exists>nd tapes' evs.
         execute' [Symbolic (1/2) None, Symbolic (1/10) (Some True)]
             [set_trainable_params example_tape] 7 forward_backend param_shift [] 1 2
           = (Inr nd, tapes', evs) \<and>
         grad_fn example_env (grad nd) [Tensor [1]] Map.empty
           = (Inr (Vjps [Tensor 2, Tensor 3]), grad nd, []))"
  using C1_direct_contraction [of forward_backend
      "[set_trainable_params example_tape]" "[]" "[Numpy [1]]" "[Numpy [[2, 3]]]"
      "[Symbolic (1/2) None, Symbolic (1/10) (Some True)]" 7 param_shift 1 2 example_env "[Tensor [1]]" Map.empty]
  by (simp add: forward_backend_def compute_vjp_def return_vjps_def convert_to_tensor_def)

text \<open>
  C2. With no Jacobians from the forward pass, a gradient function from the
  \<^verbatim>\<open>pennylane.gradients\<close> package and \<^verbatim>\<open>_n < max_diff\<close>, the closure builds the
  VJP tapes with \<^verbatim>\<open>batch_vjp\<close> and calls \<^verbatim>\<open>execute\<close> on them exactly once, with
  \<^verbatim>\<open>_n + 1\<close> and the same device, execution function, gradient function, keyword
  arguments and \<^verbatim>\<open>max_diff\<close>; its result is the processing function applied to
  the results of that call.
\<close>

theorem C2_recursive_call:
  assumes "cl_jacs cl = []"
    and "sublist ''pennylane.gradients'' (gf_module_name (cl_gradient_fn cl))"
    and "cl_n cl < cl_max_diff cl"
    and "batch_vjp env (cl_tapes cl) dy (cl_gradient_fn cl) ''extend''
           (cl_gradient_kwargs cl) = Inr (vjp_tapes, processing_fn)"
    and "execute vjp_tapes (cl_device cl) (cl_execute_fn cl) (cl_gradient_fn cl)
           (cl_gradient_kwargs cl) (cl_n cl + 1) (cl_max_diff cl) = (r, ts, inner)"
  shows "grad_fn env cl dy tfkwargs =
           ((case r of
               Inl e \<Rightarrow> Inl e
             | Inr nd \<Rightarrow> map_sum id (return_vjps tfkwargs) (processing_fn (outputs nd))),
            cl,
            [BatchVjp (cl_tapes cl) dy (cl_gradient_fn cl) ''extend'' (cl_gradient_kwargs cl),
             Execute vjp_tapes (cl_device cl) (cl_execute_fn cl) (cl_gradient_fn cl)
               (cl_gradient_kwargs cl) (cl_n cl + 1) (cl_max_diff cl)] @ inner)
         \<and> filter is_Execute (snd (snd (grad_fn env cl dy tfkwargs))) =
             [Execute vjp_tapes (cl_device cl) (cl_execute_fn cl) (cl_gradient_fn cl)
                (cl_gradient_kwargs cl) (cl_n cl + 1) (cl_max_diff cl)]"
proof -
  have "cl_n cl \<noteq> cl_max_diff cl"
    using assms(3) by simp
  note run = grad_fn_recursive [OF assms(1) assms(2) this assms(4) assms(5)]
  have "inner = [ExecuteFn (map unwrap_tape (map set_trainable_params vjp_tapes))
                   (cl_gradient_kwargs cl)]"
    using execute_events [of vjp_tapes "cl_device cl" "cl_execute_fn cl" "cl_gradient_fn cl"
        "cl_gradient_kwargs cl" "cl_n cl + 1" "cl_max_diff cl"] assms(5)
    by simp
  with run show ?thesis by simp
qed

theorem C2_recursive_call_witness:
  "cl_jacs (example_closure backward_backend param_shift 1 2) = []
   \<and> sublist ''pennylane.gradients''
        (gf_module_name (cl_gradient_fn (example_closure backward_backend param_shift 1 2)))
   \<and> cl_n (example_closure backward_backend param_shift 1 2)
        < cl_max_diff (example_closure backward_backend param_shift 1 2)
   \<and> batch_vjp example_env [set_trainable_params example_tape] [Tensor [1]] param_shift
        ''extend'' [(''h'', 1/100)]
        = Inr ([set_trainable_params example_tape, set_trainable_params example_tape],
               sum_results)
   \<and> fst (grad_fn example_env (example_closure backward_backend param_shift 1 2)
             [Tensor [1]] Map.empty)
        = Inr (Vjps [Numpy 1, Numpy 1])
   \<and> filter is_Execute
        (snd (snd (grad_fn example_env (example_closure backward_backend param_shift 1 2)
                     [Tensor [1]] Map.empty)))
        = [Execute [set_trainable_params example_tape, set_trainable_params example_tape] 7
             backward_backend param_shift [(''h'', 1/100)] 2 2]"
  using C2_recursive_call [of "example_closure backward_backend param_shift 1 2" example_env
      "[Tensor [1]]" "[set_trainable_params example_tape, set_trainable_params example_tape]"
      sum_results
      "fst (execute [set_trainable_params example_tape, set_trainable_params example_tape] 7
              backward_backend param_shift [(''h'', 1/100)] 2 2)"
      "fst (snd (execute [set_trainable_params example_tape, set_trainable_params example_tape]
              7 backward_backend param_shift [(''h'', 1/100)] 2 2))"
      "snd (snd (execute [set_trainable_params example_tape, set_trainable_params example_tape]
              7 backward_backend param_shift [(''h'', 1/100)] 2 2))"
      Map.empty]
  by (simp add: example_closure_def example_env_def param_shift_def sublist_code(3)
        execute_eq execute'_eq backward_backend_def sum_results_def return_vjps_def
        convert_to_tensor_def)

text \<open>
  C3. With no Jacobians from the forward pass, a gradient function from the
  \<^verbatim>\<open>pennylane.gradients\<close> package and \<^verbatim>\<open>_n == max_diff\<close>, the closure unwraps the
  tapes, calls \<^verbatim>\<open>_update\<close> on each, builds the VJP tapes and the processing function
  with \<^verbatim>\<open>batch_vjp\<close> and reduction \<^verbatim>\<open>"extend"\<close>, calls the execution function once
  on the VJP tapes and applies the processing function to its results. The log holds
  these two calls and nothing else: the executor is not called again.
\<close>

theorem C3_depth_exhausted:
  assumes "cl_jacs cl = []"
    and "sublist ''pennylane.gradients'' (gf_module_name (cl_gradient_fn cl))"
    and "cl_n cl = cl_max_diff cl"
    and "batch_vjp env (map (tape_update env) (map unwrap_tape (cl_tapes cl))) dy
           (cl_gradient_fn cl) ''extend'' (cl_gradient_kwargs cl)
           = Inr (vjp_tapes, processing_fn)"
  shows "grad_fn env cl dy tfkwargs =
           ((case cl_execute_fn cl vjp_tapes [] of
               Inl e \<Rightarrow> Inl e
             | Inr (res, js) \<Rightarrow>
                 map_sum id (\<lambda>vjps. return_vjps tfkwargs (map convert_to_tensor vjps))
                   (processing_fn res)),
            cl\<lparr>cl_tapes := restore_params
                              (map (tape_update env) (map unwrap_tape (cl_tapes cl)))
                              (map params (cl_tapes cl))\<rparr>,
            [BatchVjp (map (tape_update env) (map unwrap_tape (cl_tapes cl))) dy
               (cl_gradient_fn cl) ''extend'' (cl_gradient_kwargs cl),
             ExecuteFn vjp_tapes []])"
  using assms by (rule grad_fn_exhausted)

theorem C3_depth_exhausted_witness:
  "cl_jacs (example_closure backward_backend param_shift 2 2) = []
   \<and> sublist ''pennylane.gradients''
        (gf_module_name (cl_gradient_fn (example_closure backward_backend param_shift 2 2)))
   \<and> cl_n (example_closure backward_backend param_shift 2 2)
        = cl_max_diff (example_closure backward_backend param_shift 2 2)
   \<and> batch_vjp example_env
        (map (tape_update example_env)
           (map unwrap_tape [set_trainable_params example_tape]))
        [Tensor [1]] param_shift ''extend'' [(''h'', 1/100)]
        = Inr ([unwrap_tape (set_trainable_params example_tape),
                unwrap_tape (set_trainable_params example_tape)], sum_results)
   \<and> grad_fn example_env (example_closure backward_backend param_shift 2 2)
        [Tensor [1]] Map.empty
        = (Inr (Vjps [Tensor 1, Tensor 1]),
           example_closure backward_backend param_shift 2 2,
           [BatchVjp [unwrap_tape (set_trainable_params example_tape)] [Tensor [1]]
              param_shift ''extend'' [(''h'', 1/100)],
            ExecuteFn [unwrap_tape (set_trainable_params example_tape),
                       unwrap_tape (set_trainable_params example_tape)] []])"
  using C3_depth_exhausted [of "example_closure backward_backend param_shift 2 2" example_env
      "[Tensor [1]]"
      "[unwrap_tape (set_trainable_params example_tape),
        unwrap_tape (set_trainable_params example_tape)]"
      sum_results Map.empty] restore_unwrap_tapes [of "[set_trainable_params example_tape]"]
  by (simp add: example_closure_def example_env_def param_shift_def sublist_code(3)
        backward_backend_def sum_results_def return_vjps_def convert_to_tensor_def)

text \<open>
  C4. With no Jacobians from the forward pass and a gradient function that is neither
  from the \<^verbatim>\<open>pennylane.gradients\<close> package nor a method bound to the device, the
  closure raises \<^verbatim>\<open>ValueError("Unknown gradient function.")\<close>; the tapes and the
  closure's variables are as they were before the call, and nothing was called.
\<close>

theorem C4_unknown_gradient_fn:
  assumes "cl_jacs cl = []"
    and "\<not> sublist ''pennylane.gradients'' (gf_module_name (cl_gradient_fn cl))"
    and "\<not> is_device_method (cl_gradient_fn cl) (cl_device cl)"
  shows "grad_fn env cl dy tfkwargs =
           (Inl (ValueError ''Unknown gradient function.''), cl, [])"
  using assms by (rule grad_fn_unknown)

theorem C4_unknown_gradient_fn_witness:
  "cl_jacs (example_closure backward_backend unknown_gradient_fn 1 2) = []
   \<and> \<not> sublist ''pennylane.gradients''
          (gf_module_name
             (cl_gradient_fn (example_closure backward_backend unknown_gradient_fn 1 2)))
   \<and> \<not> is_device_method
          (cl_gradient_fn (example_closure backward_backend unknown_gradient_fn 1 2))
          (cl_device (example_closure backward_backend unknown_gradient_fn 1 2))
   \<and> grad_fn example_env (example_closure backward_backend unknown_gradient_fn 1 2)
        [Tensor [1]] Map.empty
        = (Inl (ValueError ''Unknown gradient function.''),
           example_closure backward_backend unknown_gradient_fn 1 2, [])"
  using C4_unknown_gradient_fn [of "example_closure backward_backend unknown_gradient_fn 1 2"
      example_env "[Tensor [1]]" Map.empty]
  by (simp add: example_closure_def unknown_gradient_fn_def is_device_method_def
        sublist_code(3))

text \<open>
  C7. With no Jacobians from the forward pass and a gradient function that is not from
  the \<^verbatim>\<open>pennylane.gradients\<close> package but whose \<^verbatim>\<open>fn\<close> is a method bound to the
  device passed to the executor, the closure calls the gradient function on the unwrapped
  tapes with the gradient keyword arguments and contracts \<^verbatim>\<open>dy\<close> with the Jacobians
  it returns, as in the direct branch. The only call in the log is that one: the executor
  is not called again.
\<close>

theorem C7_device_method:
  assumes "cl_jacs cl = []"
    and "\<not> sublist ''pennylane.gradients'' (gf_module_name (cl_gradient_fn cl))"
    and "is_device_method (cl_gradient_fn cl) (cl_device cl)"
    and "gf_call (cl_gradient_fn cl) (map unwrap_tape (cl_tapes cl)) (cl_gradient_kwargs cl)
           = Inr jacs"
  shows "grad_fn env cl dy tfkwargs =
           (Inr (return_vjps tfkwargs (concat (map2 compute_vjp dy jacs))),
            cl\<lparr>cl_jacs := jacs\<rparr>,
            [GradientFn (map unwrap_tape (cl_tapes cl)) (cl_gradient_kwargs cl)])"
  using assms by (rule grad_fn_device)

theorem C7_device_method_witness:
  "cl_jacs (example_closure backward_backend (device_gradients 7) 1 2) = []
   \<and> \<not> sublist ''pennylane.gradients''
          (gf_module_name
             (cl_gradient_fn (example_closure backward_backend (device_gradients 7) 1 2)))
   \<and> is_device_method
        (cl_gradient_fn (example_closure backward_backend (device_gradients 7) 1 2))
        (cl_device (example_closure backward_backend (device_gradients 7) 1 2))
   \<and> gf_call (device_gradients 7) (map unwrap_tape [set_trainable_params example_tape])
        [(''h'', 1/100)] = Inr [Numpy [[2, 3]]]
   \<and> grad_fn example_env (example_closure backward_backend (device_gradients 7) 1 2)
        [Tensor [1]] Map.empty
        = (Inr (Vjps [Tensor 2, Tensor 3]),
           (example_closure backward_backend (device_gradients 7) 1 2)
             \<lparr>cl_jacs := [Numpy [[2, 3]]]\<rparr>,
           [GradientFn [unwrap_tape (set_trainable_params example_tape)] [(''h'', 1/100)]])"
  using C7_device_method [of "example_closure backward_backend (device_gradients 7) 1 2"
      "[Numpy [[2, 3]]]" example_env "[Tensor [1]]" Map.empty]
  by (simp add: example_closure_def device_gradients_def is_device_method_def
        sublist_code(3) compute_vjp_def return_vjps_def)

text \<open>
  C5. Unwrapping is scoped. After the forward pass (\<^verbatim>\<open>_execute\<close>, and
  \<^verbatim>\<open>execute\<close> around it) and after a call of the gradient closure, whichever branch
  it took and whether it returned or raised (an exception of the execution function,
  of the gradient transform, of the processing function or of the device gradient
  method is a result \<open>Inl e\<close>), every tape has the parameters it had before.
\<close>

theorem C5_unwrap_scoped:
  "map params (fst (snd (execute' parameters tapes device execute_fn gradient_fn
                           gradient_kwargs n max_diff))) = map params tapes
   \<and> map params (fst (snd (execute tapes device execute_fn gradient_fn
                             gradient_kwargs n max_diff))) = map params tapes
   \<and> map params (cl_tapes (fst (snd (grad_fn env cl dy tfkwargs)))) = map params (cl_tapes cl)"
proof -
  have forward: "map params (fst (snd (execute' parameters tapes device execute_fn gradient_fn
                           gradient_kwargs n max_diff))) = map params tapes"
    by (simp add: execute'_tapes)
  have outer: "map params (fst (snd (execute tapes device execute_fn gradient_fn
                             gradient_kwargs n max_diff))) = map params tapes"
    by (simp add: execute_eq execute'_tapes params_set_trainable comp_def)
  have "fst (snd (grad_fn env cl dy tfkwargs)) = fst (snd (compute_vjps env cl dy))"
    by (simp add: grad_fn_def split: prod.splits sum.splits)
  then have backward:
    "map params (cl_tapes (fst (snd (grad_fn env cl dy tfkwargs)))) = map params (cl_tapes cl)"
    by (simp add: compute_vjps_params)
  from forward outer backward show ?thesis by simp
qed

theorem C5_unwrap_scoped_witness:
  "fst (execute [example_tape] 7 failing_backend param_shift [] 1 2)
     = Inl (Raised ''device error'')
   \<and> map params (fst (snd (execute [example_tape] 7 failing_backend param_shift [] 1 2)))
     = [[Symbolic (1/2) None, Symbolic (1/10) (Some True)]]
   \<and> map params
       (cl_tapes (fst (snd (grad_fn example_env
                              (example_closure failing_backend param_shift 2 2)
                              [Tensor [1]] Map.empty))))
     = [[Symbolic (1/2) None, Symbolic (1/10) (Some True)]]"
  using C5_unwrap_scoped [of "concat (map get_parameters [example_tape])" "[example_tape]" 7
      failing_backend param_shift "[]" 1 2 example_env
      "example_closure failing_backend param_shift 2 2" "[Tensor [1]]" Map.empty]
  by (simp add: execute_eq execute'_eq failing_backend_def example_closure_def
        example_tape_def params_set_trainable)

text \<open>
  C8, as the code has it. After a forward pass that returns, the caller receives the
  results of the execution function, each converted to a TensorFlow tensor, in the order
  and in the number the execution function returned them: one per tape exactly when the
  execution function returned one per tape, which the executor does not check. The
  parameter vector that enters the differentiation graph is the concatenation, in tape
  order, of each tape's trainable parameters in the order they have in the tape, so its
  length is the sum of the tapes' numbers of trainable parameters.
\<close>

theorem C8_forward_shapes:
  assumes "execute_fn (map unwrap_tape (map set_trainable_params tapes)) gradient_kwargs
             = Inr (res, jacs)"
  shows "\<exists>nd tapes' evs.
           execute tapes device execute_fn gradient_fn gradient_kwargs n max_diff
             = (Inr nd, tapes', evs)
           \<and> outputs nd = map convert_to_tensor res
           \<and> length (outputs nd) = length res
           \<and> (length (outputs nd) = length tapes) = (length res = length tapes)
           \<and> list_all is_tensor (outputs nd)
           \<and> map payload (outputs nd) = map payload res
           \<and> inputs nd = concat (map get_parameters tapes')
           \<and> inputs nd = concat (map (\<lambda>t. filter requires_grad (params t)) tapes)
           \<and> length (inputs nd) = sum_list (map (\<lambda>t. card (trainable_params t)) tapes')"
proof -
  let ?tapes' = "map set_trainable_params tapes"
  let ?parameters = "concat (map (\<lambda>t. filter requires_grad (params t)) tapes)"
  let ?nd = "\<lparr>inputs = ?parameters, outputs = map convert_to_tensor res,
              grad = \<lparr>cl_tapes = ?tapes', cl_device = device, cl_execute_fn = execute_fn,
                       cl_gradient_fn = gradient_fn, cl_gradient_kwargs = gradient_kwargs,
                       cl_n = n, cl_max_diff = max_diff,
                       cl_jacs = map convert_to_tensor jacs\<rparr>\<rparr>"
  have run: "execute tapes device execute_fn gradient_fn gradient_kwargs n max_diff
               = (Inr ?nd, ?tapes', [ExecuteFn (map unwrap_tape ?tapes') gradient_kwargs])"
    using assms by (simp add: execute_eq execute'_eq)
  have tensors: "list_all is_tensor (map convert_to_tensor res)"
    by (simp add: list_all_iff convert_to_tensor_def)
  have payloads: "map payload (map convert_to_tensor res) = map payload res"
    by (simp add: convert_to_tensor_def comp_def)
  have flat: "?parameters = concat (map get_parameters ?tapes')"
    by (simp add: get_parameters_set_trainable comp_def)
  have "length ?parameters = sum_list (map (\<lambda>t. length (filter requires_grad (params t))) tapes)"
    by (simp add: length_concat comp_def)
  also have "\<dots> = sum_list (map (\<lambda>t. card (trainable_params t)) ?tapes')"
    by (simp add: comp_def set_trainable_params_def card_trainable)
  finally have count:
    "length ?parameters = sum_list (map (\<lambda>t. card (trainable_params t)) ?tapes')" .
  show ?thesis
    using run tensors payloads flat count by simp
qed

theorem C8_forward_shapes_witness:
  "backward_backend (map unwrap_tape (map set_trainable_params [example_tape, frozen_tape]))
     [] = Inr ([Numpy [1], Numpy [1]], [])
   \<and> (\<exists>nd tapes' evs.
         execute [example_tape, frozen_tape] 7 backward_backend param_shift [] 1 2
           = (Inr nd, tapes', evs)
         \<and> outputs nd = [Tensor [1], Tensor [1]]
         \<and> length (outputs nd) = length [example_tape, frozen_tape]
         \<and> inputs nd = [Symbolic (1/2) None, Symbolic (1/10) (Some True)]
         \<and> sum_list (map (\<lambda>t. card (trainable_params t)) tapes') = 2)"
proof -
  have backend:
    "backward_backend (map unwrap_tape (map set_trainable_params [example_tape, frozen_tape]))
       [] = Inr ([Numpy [1], Numpy [1]], [])"
    by (simp add: backward_backend_def)
  from C8_forward_shapes [of backward_backend "[example_tape, frozen_tape]" "[]"
      "[Numpy [1], Numpy [1]]" "[]" 7 param_shift 1 2, OF backend]
  obtain nd tapes' evs where
    run: "execute [example_tape, frozen_tape] 7 backward_backend param_shift [] 1 2
            = (Inr nd, tapes', evs)"
    and out: "outputs nd = map convert_to_tensor [Numpy [1], Numpy [1]]"
    and flat: "inputs nd
                 = concat (map (\<lambda>t. filter requires_grad (params t)) [example_tape, frozen_tape])"
    and count: "length (inputs nd) = sum_list (map (\<lambda>t. card (trainable_params t)) tapes')"
    by blast
  have out': "outputs nd = [Tensor [1], Tensor [1]]"
    using out by (simp add: convert_to_tensor_def)
  have len: "length (outputs nd) = length [example_tape, frozen_tape]"
    using out' by simp
  have flat': "inputs nd = [Symbolic (1/2) None, Symbolic (1/10) (Some True)]"
    using flat by (simp add: example_tape_def frozen_tape_def)
  have count': "sum_list (map (\<lambda>t. card (trainable_params t)) tapes') = 2"
    using count flat' by simp
  from run out' len flat' count' have
    "\<exists>nd tapes' evs.
         execute [example_tape, frozen_tape] 7 backward_backend param_shift [] 1 2
           = (Inr nd, tapes', evs)
         \<and> outputs nd = [Tensor [1], Tensor [1]]
         \<and> length (outputs nd) = length [example_tape, frozen_tape]
         \<and> inputs nd = [Symbolic (1/2) None, Symbolic (1/10) (Some True)]
         \<and> sum_list (map (\<lambda>t. card (trainable_params t)) tapes') = 2"
    by blast
  then show ?thesis
    by (rule conjI [OF backend])
qed

text \<open>
  C8 as stated fails: for the two tapes below the execution function returns a single
  result, and the forward pass hands that single result to the caller.
\<close>

theorem C8_counterexample:
  "map_sum id outputs
     (fst (execute [example_tape, frozen_tape] 7 one_result_backend param_shift [] 1 2))
     = Inr [Tensor [1]]
   \<and> length [Tensor [1 :: real]] \<noteq> length [example_tape, frozen_tape]"
  by (simp add: execute_eq execute'_eq one_result_backend_def convert_to_tensor_def)

text \<open>
  C9, as the code has it. The device-method branch assigns the Jacobians it computed to
  \<^verbatim>\<open>jacs\<close>. When that list is not empty, every later call of the same closure finds
  \<^verbatim>\<open>jacs\<close> non-empty: it contracts \<^verbatim>\<open>dy\<close> with the stored Jacobians and calls
  nothing, so the gradient function is not invoked again.
\<close>

theorem C9_device_jacobians_stored:
  assumes "cl_jacs cl = []"
    and "\<not> sublist ''pennylane.gradients'' (gf_module_name (cl_gradient_fn cl))"
    and "is_device_method (cl_gradient_fn cl) (cl_device cl)"
    and "gf_call (cl_gradient_fn cl) (map unwrap_tape (cl_tapes cl)) (cl_gradient_kwargs cl)
           = Inr jacs"
  shows "fst (snd (grad_fn env cl dy tfkwargs)) = cl\<lparr>cl_jacs := jacs\<rparr>
         \<and> (jacs \<noteq> [] \<longrightarrow>
              invoke_all env (fst (snd (grad_fn env cl dy tfkwargs))) calls =
                map (\<lambda>(dy', tfkwargs').
                       (Inr (return_vjps tfkwargs' (concat (map2 compute_vjp dy' jacs))), []))
                  calls)"
proof -
  have first: "fst (snd (grad_fn env cl dy tfkwargs)) = cl\<lparr>cl_jacs := jacs\<rparr>"
    using grad_fn_device [OF assms, of env dy tfkwargs] by simp
  have later: "invoke_all env (cl\<lparr>cl_jacs := jacs\<rparr>) calls =
             map (\<lambda>(dy', tfkwargs').
                    (Inr (return_vjps tfkwargs' (concat (map2 compute_vjp dy' jacs))), []))
               calls" if "jacs \<noteq> []"
  proof -
    from that have "cl_jacs (cl\<lparr>cl_jacs := jacs\<rparr>) \<noteq> []"
      by simp
    then have "invoke_all env (cl\<lparr>cl_jacs := jacs\<rparr>) calls =
             map (\<lambda>(dy', tfkwargs').
                    (Inr (return_vjps tfkwargs'
                       (concat (map2 compute_vjp dy' (cl_jacs (cl\<lparr>cl_jacs := jacs\<rparr>))))), []))
               calls"
      by (rule invoke_all_direct)
    then show ?thesis by simp
  qed
  from first later show ?thesis by simp
qed

theorem C9_device_jacobians_stored_witness:
  "cl_jacs (example_closure backward_backend (device_gradients 7) 1 2) = []
   \<and> \<not> sublist ''pennylane.gradients''
          (gf_module_name
             (cl_gradient_fn (example_closure backward_backend (device_gradients 7) 1 2)))
   \<and> is_device_method
        (cl_gradient_fn (example_closure backward_backend (device_gradients 7) 1 2))
        (cl_device (example_closure backward_backend (device_gradients 7) 1 2))
   \<and> gf_call (device_gradients 7) (map unwrap_tape [set_trainable_params example_tape])
        [(''h'', 1/100)] = Inr [Numpy [[2, 3]]]
   \<and> [Numpy [[2, 3 :: real]]] \<noteq> []
   \<and> cl_jacs (fst (snd (grad_fn example_env
                           (example_closure backward_backend (device_gradients 7) 1 2)
                           [Tensor [1]] Map.empty)))
        = [Numpy [[2, 3]]]
   \<and> invoke_all example_env
        (fst (snd (grad_fn example_env
                     (example_closure backward_backend (device_gradients 7) 1 2)
                     [Tensor [1]] Map.empty)))
        [([Tensor [2]], Map.empty), ([Tensor [1]], [''variables'' \<mapsto> [''w'']])]
        = [(Inr (Vjps [Tensor 4, Tensor 6]), []),
           (Inr (VjpsAndVariables [Tensor 2, Tensor 3] [''w'']), [])]"
proof -
  let ?cl = "example_closure backward_backend (device_gradients 7) 1 2"
  let ?calls = "[([Tensor [2]], Map.empty), ([Tensor [1]], [''variables'' \<mapsto> [''w'']])]"
  have h1: "cl_jacs ?cl = []"
    by (simp add: example_closure_def)
  have h2: "\<not> sublist ''pennylane.gradients'' (gf_module_name (cl_gradient_fn ?cl))"
    by (simp add: example_closure_def device_gradients_def sublist_code(3))
  have h3: "is_device_method (cl_gradient_fn ?cl) (cl_device ?cl)"
    by (simp add: example_closure_def device_gradients_def is_device_method_def)
  have h4: "gf_call (device_gradients 7) (map unwrap_tape [set_trainable_params example_tape])
              [(''h'', 1/100)] = Inr [Numpy [[2, 3]]]"
    by (simp add: device_gradients_def)
  have h4': "gf_call (cl_gradient_fn ?cl) (map unwrap_tape (cl_tapes ?cl))
               (cl_gradient_kwargs ?cl) = Inr [Numpy [[2, 3]]]"
    using h4 by (simp add: example_closure_def)
  have ne: "[Numpy [[2, 3 :: real]]] \<noteq> []"
    by simp
  note stored =
    C9_device_jacobians_stored [of ?cl "[Numpy [[2, 3]]]" example_env "[Tensor [1]]"
      Map.empty ?calls, OF h1 h2 h3 h4']
  from stored have
    "fst (snd (grad_fn example_env ?cl [Tensor [1]] Map.empty))
       = ?cl\<lparr>cl_jacs := [Numpy [[2, 3]]]\<rparr>"
    by blast
  then have jacs: "cl_jacs (fst (snd (grad_fn example_env ?cl [Tensor [1]] Map.empty)))
                     = [Numpy [[2, 3]]]"
    by simp
  from stored ne have
    "invoke_all example_env (fst (snd (grad_fn example_env ?cl [Tensor [1]] Map.empty))) ?calls
       = map (\<lambda>(dy', tfkwargs').
                (Inr (return_vjps tfkwargs'
                        (concat (map2 compute_vjp dy' [Numpy [[2, 3]]]))), []))
           ?calls"
    by blast
  also have "\<dots> = [(Inr (Vjps [Tensor 4, Tensor 6]), []),
                      (Inr (VjpsAndVariables [Tensor 2, Tensor 3] [''w'']), [])]"
    by (simp add: compute_vjp_def return_vjps_def)
  finally have later:
    "invoke_all example_env (fst (snd (grad_fn example_env ?cl [Tensor [1]] Map.empty))) ?calls
       = [(Inr (Vjps [Tensor 4, Tensor 6]), []),
          (Inr (VjpsAndVariables [Tensor 2, Tensor 3] [''w'']), [])]" .
  from h1 h2 h3 h4 ne jacs later show ?thesis
    by blast
qed

text \<open>
  C9 as stated fails: the device gradient method below returns an empty list of
  Jacobians. The first call of the closure takes the device-method branch and leaves
  \<^verbatim>\<open>jacs\<close> empty, and the next call invokes the gradient function again.
\<close>

theorem C9_counterexample:
  "grad_fn example_env (example_closure backward_backend (empty_device_gradients 7) 1 2)
     [Tensor [1]] Map.empty
     = (Inr (Vjps []),
        example_closure backward_backend (empty_device_gradients 7) 1 2,
        [GradientFn [unwrap_tape (set_trainable_params example_tape)] [(''h'', 1/100)]])
   \<and> invoke_all example_env
        (fst (snd (grad_fn example_env
                     (example_closure backward_backend (empty_device_gradients 7) 1 2)
                     [Tensor [1]] Map.empty)))
        [([Tensor [1]], Map.empty)]
     = [(Inr (Vjps []),
         [GradientFn [unwrap_tape (set_trainable_params example_tape)] [(''h'', 1/100)]])]"
proof -
  let ?cl = "example_closure backward_backend (empty_device_gradients 7) 1 2"
  have first: "grad_fn example_env ?cl [Tensor [1]] Map.empty
     = (Inr (Vjps []), ?cl,
        [GradientFn [unwrap_tape (set_trainable_params example_tape)] [(''h'', 1/100)]])"
    using grad_fn_device [of ?cl "[]" example_env "[Tensor [1]]" Map.empty]
    by (simp add: example_closure_def empty_device_gradients_def is_device_method_def
          sublist_code(3) return_vjps_def)
  then show ?thesis by simp
qed

text \<open>
  C10. The forward pass calls the execution function with the gradient keyword
  arguments: what \<^verbatim>\<open>_execute\<close> returns is computed from
  \<^verbatim>\<open>execute_fn(tapes, **gradient_kwargs)\<close> on the unwrapped tapes. In the branch
  \<^verbatim>\<open>_n == max_diff\<close> the execution function is called on the VJP tapes with no
  keyword argument: what the closure returns is computed from
  \<^verbatim>\<open>execute_fn(vjp_tapes)\<close>, and the gradient keyword arguments go to
  \<^verbatim>\<open>batch_vjp\<close> only.
\<close>

theorem C10_keyword_arguments:
  assumes "cl_jacs cl = []"
    and "sublist ''pennylane.gradients'' (gf_module_name (cl_gradient_fn cl))"
    and "cl_n cl = cl_max_diff cl"
    and "batch_vjp env (map (tape_update env) (map unwrap_tape (cl_tapes cl))) dy
           (cl_gradient_fn cl) ''extend'' (cl_gradient_kwargs cl)
           = Inr (vjp_tapes, processing_fn)"
  shows "execute' parameters tapes device execute_fn gradient_fn gradient_kwargs n max_diff =
           (case execute_fn (map unwrap_tape tapes) gradient_kwargs of
              Inl e \<Rightarrow> (Inl e, tapes, [ExecuteFn (map unwrap_tape tapes) gradient_kwargs])
            | Inr (res, jacs) \<Rightarrow>
                (Inr \<lparr>inputs = parameters, outputs = map convert_to_tensor res,
                      grad = \<lparr>cl_tapes = tapes, cl_device = device,
                               cl_execute_fn = execute_fn, cl_gradient_fn = gradient_fn,
                               cl_gradient_kwargs = gradient_kwargs,
                               cl_n = n, cl_max_diff = max_diff,
                               cl_jacs = map convert_to_tensor jacs\<rparr>\<rparr>,
                 tapes, [ExecuteFn (map unwrap_tape tapes) gradient_kwargs]))
         \<and> grad_fn env cl dy tfkwargs =
           ((case cl_execute_fn cl vjp_tapes [] of
               Inl e \<Rightarrow> Inl e
             | Inr (res, js) \<Rightarrow>
                 map_sum id (\<lambda>vjps. return_vjps tfkwargs (map convert_to_tensor vjps))
                   (processing_fn res)),
            cl\<lparr>cl_tapes := restore_params
                              (map (tape_update env) (map unwrap_tape (cl_tapes cl)))
                              (map params (cl_tapes cl))\<rparr>,
            [BatchVjp (map (tape_update env) (map unwrap_tape (cl_tapes cl))) dy
               (cl_gradient_fn cl) ''extend'' (cl_gradient_kwargs cl),
             ExecuteFn vjp_tapes []])"
  using execute'_eq [of parameters tapes device execute_fn gradient_fn gradient_kwargs n max_diff]
    grad_fn_exhausted [OF assms, of tfkwargs]
  by (rule conjI)

theorem C10_keyword_arguments_witness:
  "cl_jacs (example_closure counting_backend param_shift 2 2) = []
   \<and> sublist ''pennylane.gradients''
        (gf_module_name (cl_gradient_fn (example_closure counting_backend param_shift 2 2)))
   \<and> cl_n (example_closure counting_backend param_shift 2 2)
        = cl_max_diff (example_closure counting_backend param_shift 2 2)
   \<and> batch_vjp example_env
        (map (tape_update example_env)
           (map unwrap_tape [set_trainable_params example_tape]))
        [Tensor [1]] param_shift ''extend'' [(''h'', 1/100)]
        = Inr ([unwrap_tape (set_trainable_params example_tape),
                unwrap_tape (set_trainable_params example_tape)], sum_results)
   \<and> map_sum id outputs
        (fst (execute' [Symbolic (1/2) None, Symbolic (1/10) (Some True)]
                [set_trainable_params example_tape] 7 counting_backend param_shift
                [(''h'', 1/100)] 2 2))
        = Inr [Tensor [1]]
   \<and> snd (snd (execute' [Symbolic (1/2) None, Symbolic (1/10) (Some True)]
                  [set_trainable_params example_tape] 7 counting_backend param_shift
                  [(''h'', 1/100)] 2 2))
        = [ExecuteFn [unwrap_tape (set_trainable_params example_tape)] [(''h'', 1/100)]]
   \<and> fst (grad_fn example_env (example_closure counting_backend param_shift 2 2)
             [Tensor [1]] Map.empty)
        = Inr (Vjps [Tensor 0, Tensor 0])
   \<and> snd (snd (grad_fn example_env (example_closure counting_backend param_shift 2 2)
                  [Tensor [1]] Map.empty))
        = [BatchVjp [unwrap_tape (set_trainable_params example_tape)] [Tensor [1]]
             param_shift ''extend'' [(''h'', 1/100)],
           ExecuteFn [unwrap_tape (set_trainable_params example_tape),
                      unwrap_tape (set_trainable_params example_tape)] []]"
  using C10_keyword_arguments [of "example_closure counting_backend param_shift 2 2"
      example_env "[Tensor [1]]"
      "[unwrap_tape (set_trainable_params example_tape),
        unwrap_tape (set_trainable_params example_tape)]"
      sum_results "[Symbolic (1/2) None, Symbolic (1/10) (Some True)]"
      "[set_trainable_params example_tape]" 7 counting_backend param_shift
      "[(''h'', 1/100)]" 2 2 Map.empty]
  by (simp add: example_closure_def example_env_def param_shift_def sublist_code(3)
        counting_backend_def sum_results_def return_vjps_def convert_to_tensor_def)




end
